theory Spec2Isabelle
  imports Complex_Main
begin

section \<open>Data model\<close>

text \<open>
  JavaScript numbers are modelled as mathematical reals: every theorem below is about
  exact real arithmetic, not about IEEE-754 rounding (nor about the single-precision
  storage of \<^verbatim>\<open>Float32Array\<close> and of instance matrices).  A three.js
  \<^verbatim>\<open>Vector3\<close> is a triple of reals.
\<close>

type_synonym vec3 = "real \<times> real \<times> real"

text \<open>The union type \<^verbatim>\<open>'CHAOS' | 'FORMED'\<close>.\<close>

datatype SceneMode = CHAOS | FORMED

record Counts =
  foliage :: nat
  ornaments :: nat
  lights :: nat

record Tree =
  height :: real
  radius :: real

text \<open>
  \<^verbatim>\<open>ConfigType\<close>, polymorphic in the colour theme, which plays no part in placement or
  animation.
\<close>

record 'c Config =
  colors :: 'c
  counts :: Counts
  tree :: Tree
  photos_body :: "string list"

definition createConfig :: "'c \<Rightarrow> 'c Config" where
  "createConfig cs =
     \<lparr> colors = cs,
       counts = \<lparr> foliage = 500, ornaments = 50, lights = 200 \<rparr>,
       tree = \<lparr> height = 28, radius = 12 \<rparr>,
       photos_body = [] \<rparr>"

section \<open>three.js primitives used by the frame callbacks\<close>

text \<open>
  Library code (three.js), not part of the repository.  \<^verbatim>\<open>Vector3.lerp(v, alpha)\<close> is
  \<^verbatim>\<open>this.x += (v.x - this.x) * alpha\<close> on each component, with no clamping of
  \<^verbatim>\<open>alpha\<close>; \<^verbatim>\<open>MathUtils.lerp(x, y, t)\<close> is \<^verbatim>\<open>(1 - t) * x + t * y\<close>.
\<close>

definition Vector3_lerp :: "vec3 \<Rightarrow> vec3 \<Rightarrow> real \<Rightarrow> vec3" where
  "Vector3_lerp p v alpha =
     (case p of (px, py, pz) \<Rightarrow> case v of (vx, vy, vz) \<Rightarrow>
        (px + (vx - px) * alpha, py + (vy - py) * alpha, pz + (vz - pz) * alpha))"

definition MathUtils_lerp :: "real \<Rightarrow> real \<Rightarrow> real \<Rightarrow> real" where
  "MathUtils_lerp a b t = (1 - t) * a + t * b"

definition setScalar :: "real \<Rightarrow> vec3" where
  "setScalar s = (s, s, s)"

text \<open>
  An \<^verbatim>\<open>Object3D\<close> as far as the callbacks touch it: position, Euler rotation and scale.
  For the instanced foliage mesh the callback reads the instance matrix, decomposes it,
  changes the three parts and recomposes it; the model keeps the three parts directly.
\<close>

record Object3D =
  position :: vec3
  rotation :: vec3
  scale :: vec3

record MeshStandardMaterial =
  emissiveIntensity :: real

record Mesh = Object3D +
  material :: "MeshStandardMaterial option"

section \<open>OrnamentTree: per-frame update of the foliage instances\<close>

text \<open>
  \<^verbatim>\<open>targets\<close> and \<^verbatim>\<open>randoms\<close> are the flat coordinate arrays of length
  \<^verbatim>\<open>count * 3\<close>.  The body of the \<^verbatim>\<open>for\<close> loop of \<^verbatim>\<open>useFrame\<close> for instance \<open>i\<close>:
\<close>

definition scaleBase :: "nat \<Rightarrow> real" where
  "scaleBase i = 0.4 + real (i mod 5) * 0.1"

definition OrnamentTree_instance ::
  "SceneMode \<Rightarrow> real list \<Rightarrow> real list \<Rightarrow> real \<Rightarrow> real \<Rightarrow> nat \<Rightarrow> Object3D \<Rightarrow> Object3D" where
  "OrnamentTree_instance state targets randoms time delta i dummy =
     (let isFormed = (state = FORMED);
          lerpFactor = delta * 2.0;
          tx = (if isFormed then targets ! (i * 3) else randoms ! (i * 3));
          ty = (if isFormed then targets ! (i * 3 + 1) else randoms ! (i * 3 + 1));
          tz = (if isFormed then targets ! (i * 3 + 2) else randoms ! (i * 3 + 2));
          pos = Vector3_lerp (position dummy) (tx, ty, tz) lerpFactor;
          rot = (case rotation dummy of (rx, ry, rz) \<Rightarrow>
                   (rx + sin (time * 0.5 + real i) * 0.002,
                    ry + cos (time * 0.3 + real i) * 0.002,
                    rz))
      in dummy \<lparr> position := pos, rotation := rot, scale := setScalar (scaleBase i) \<rparr>)"

text \<open>
  The whole callback: nothing happens while the mesh is not mounted
  (\<^verbatim>\<open>if (!meshRef.current) return\<close>); otherwise instances \<open>0 .. count - 1\<close> are rewritten.
\<close>

definition OrnamentTree_useFrame ::
  "SceneMode \<Rightarrow> nat \<Rightarrow> real list \<Rightarrow> real list \<Rightarrow> real \<Rightarrow> real \<Rightarrow>
     Object3D list option \<Rightarrow> Object3D list option" where
  "OrnamentTree_useFrame state count targets randoms time delta meshRef =
     (case meshRef of
        None \<Rightarrow> None
      | Some instances \<Rightarrow>
          Some (map (\<lambda>i. OrnamentTree_instance state targets randoms time delta i (instances ! i))
                  [0 ..< count]))"

section \<open>PhotoOrnaments: population size and per-frame update\<close>

text \<open>
  \<^verbatim>\<open>const count = state === 'CHAOS' ? textures.length
                    : Math.min(config.counts.ornaments, textures.length)\<close>
\<close>

definition PhotoOrnaments_count :: "SceneMode \<Rightarrow> 'c Config \<Rightarrow> 't list \<Rightarrow> nat" where
  "PhotoOrnaments_count state config textures =
     (if state = CHAOS then length textures
      else min (ornaments (counts config)) (length textures))"

definition OrnamentTree_count :: "SceneMode \<Rightarrow> 'c Config \<Rightarrow> nat" where
  "OrnamentTree_count state config = foliage (counts config)"

definition FairyLights_count :: "SceneMode \<Rightarrow> 'c Config \<Rightarrow> nat" where
  "FairyLights_count state config = lights (counts config)"

record PhotoData =
  chaosPos :: vec3
  targetPos :: vec3
  currentPos :: vec3
  rotationSpeed :: vec3

text \<open>
  The body of \<^verbatim>\<open>children.forEach\<close> for one photo group.  In FORMED mode the orientation
  comes from the three.js \<^verbatim>\<open>lookAt\<close>, which is taken as a parameter; the look-at target
  doubles the X and Z of the new position.
\<close>

definition PhotoOrnaments_child ::
  "(Object3D \<Rightarrow> vec3 \<Rightarrow> vec3) \<Rightarrow> SceneMode \<Rightarrow> real \<Rightarrow> real \<Rightarrow> nat \<Rightarrow>
     PhotoData \<times> Object3D \<Rightarrow> PhotoData \<times> Object3D" where
  "PhotoOrnaments_child lookAt state elapsedTime delta i og =
     (case og of (objData, grp) \<Rightarrow>
      let isFormed = (state = FORMED);
          target = (if isFormed then targetPos objData else chaosPos objData);
          objData' = objData \<lparr> currentPos := Vector3_lerp (currentPos objData) target (delta * 2.0) \<rparr>;
          grp1 = grp \<lparr> position := currentPos objData' \<rparr>;
          targetScale = (if isFormed then 2 else 4);
          currentScale = fst (scale grp1);
          newScale = MathUtils_lerp currentScale targetScale (delta * 3);
          grp2 = grp1 \<lparr> scale := setScalar newScale \<rparr>;
          grp3 =
            (if isFormed then
               (case position grp2 of (gx, gy, gz) \<Rightarrow>
                  (case lookAt grp2 (gx * 2, gy, gz * 2) of (rx, ry, rz) \<Rightarrow>
                     grp2 \<lparr> rotation := (rx, ry, rz + sin (elapsedTime + real i) * 0.001) \<rparr>))
             else
               (case rotation grp2 of (rx, ry, rz) \<Rightarrow>
                  (case rotationSpeed objData' of (sx, sy, sz) \<Rightarrow>
                     grp2 \<lparr> rotation := (rx + delta * sx, ry + delta * sy, rz + delta * sz) \<rparr>)))
      in (objData', grp3))"

text \<open>
  The groups are rendered from \<^verbatim>\<open>data\<close>, one per entry, so \<^verbatim>\<open>data[i]\<close> and child \<open>i\<close>
  are paired; the state is the list of these pairs, absent while the group is not
  mounted.
\<close>

definition PhotoOrnaments_useFrame ::
  "(Object3D \<Rightarrow> vec3 \<Rightarrow> vec3) \<Rightarrow> SceneMode \<Rightarrow> real \<Rightarrow> real \<Rightarrow>
     (PhotoData \<times> Object3D) list option \<Rightarrow> (PhotoData \<times> Object3D) list option" where
  "PhotoOrnaments_useFrame lookAt state elapsedTime delta groupRef =
     (case groupRef of
        None \<Rightarrow> None
      | Some children \<Rightarrow>
          Some (map (\<lambda>i. PhotoOrnaments_child lookAt state elapsedTime delta i (children ! i))
                  [0 ..< length children]))"

section \<open>FairyLights: per-frame update\<close>

record LightData =
  light_chaosPos :: vec3
  light_targetPos :: vec3
  speed :: real
  light_currentPos :: vec3
  timeOffset :: real

definition FairyLights_child ::
  "SceneMode \<Rightarrow> real \<Rightarrow> real \<Rightarrow> LightData \<times> Mesh \<Rightarrow> LightData \<times> Mesh" where
  "FairyLights_child state time delta om =
     (case om of (objData, mesh) \<Rightarrow>
      let isFormed = (state = FORMED);
          target = (if isFormed then light_targetPos objData else light_chaosPos objData);
          objData' = objData \<lparr> light_currentPos :=
                        Vector3_lerp (light_currentPos objData) target (delta * 2.5) \<rparr>;
          mesh1 = mesh \<lparr> position := light_currentPos objData' \<rparr>;
          intensity = (sin (time * speed objData' + timeOffset objData') + 1) / 2;
          mesh2 =
            (case material mesh1 of
               None \<Rightarrow> mesh1
             | Some m \<Rightarrow>
                 mesh1 \<lparr> material :=
                   Some (m \<lparr> emissiveIntensity := (if isFormed then 2 + intensity * 3 else 0) \<rparr>) \<rparr>)
      in (objData', mesh2))"

definition FairyLights_useFrame ::
  "SceneMode \<Rightarrow> real \<Rightarrow> real \<Rightarrow> (LightData \<times> Mesh) list option \<Rightarrow>
     (LightData \<times> Mesh) list option" where
  "FairyLights_useFrame state time delta groupRef =
     (case groupRef of
        None \<Rightarrow> None
      | Some children \<Rightarrow> Some (map (FairyLights_child state time delta) children))"

section \<open>Experience: camera orbit driven by the angular-velocity signal\<close>

text \<open>
  The drei \<^verbatim>\<open>OrbitControls\<close> object is library code; of it the model keeps the two
  angles that the callback reads and writes through
  \<^verbatim>\<open>getAzimuthalAngle\<close>/\<^verbatim>\<open>setAzimuthalAngle\<close> and
  \<^verbatim>\<open>getPolarAngle\<close>/\<^verbatim>\<open>setPolarAngle\<close>, a setter storing exactly the value a later
  getter returns.  Pointer input and the library's own damping, auto-rotation and
  \<^verbatim>\<open>maxPolarAngle\<close> are outside the model.  \<^verbatim>\<open>cameraSpeed\<close> is the pair \<open>(x, y)\<close>.
\<close>

record OrbitControls =
  azimuthalAngle :: real
  polarAngle :: real

definition Experience_useFrame ::
  "real \<times> real \<Rightarrow> OrbitControls option \<Rightarrow> OrbitControls option" where
  "Experience_useFrame cameraSpeed controlsRef =
     (case controlsRef of
        None \<Rightarrow> None
      | Some c \<Rightarrow>
          (let c1 = c \<lparr> azimuthalAngle := azimuthalAngle c + fst cameraSpeed \<rparr>;
               newPolar = polarAngle c1 + snd cameraSpeed
           in if newPolar > 0.1 \<and> newPolar < pi - 0.1
              then Some (c1 \<lparr> polarAngle := newPolar \<rparr>)
              else Some c1))"

text \<open>A run of frames, one angular-velocity signal per frame.\<close>

fun Experience_frames ::
  "(real \<times> real) list \<Rightarrow> OrbitControls option \<Rightarrow> OrbitControls option" where
  "Experience_frames [] controlsRef = controlsRef"
| "Experience_frames (cameraSpeed # rest) controlsRef =
     Experience_frames rest (Experience_useFrame cameraSpeed controlsRef)"

section \<open>GestureController: one pass of predictWebcam\<close>

text \<open>
  The recogniser's result as the callback reads it: \<^verbatim>\<open>gestures\<close> is a list (one entry
  per hand) of category lists, \<^verbatim>\<open>landmarks\<close> a list (one entry per hand) of landmark
  lists; a landmark is the pair \<open>(x, y)\<close>.
\<close>

record Category =
  categoryName :: string
  score :: real

record GestureRecognizerResult =
  gestures :: "Category list list"
  landmarks :: "(real \<times> real) list list"

text \<open>The three callbacks handed to the controller, as events in call order.\<close>

datatype Callback =
    OnGesture SceneMode
  | OnMove real real
  | OnStatus string

definition SENSITIVITY :: real where
  "SENSITIVITY = 5.0"

definition deadzone :: real where
  "deadzone = 0.002"

text \<open>
  The part of \<^verbatim>\<open>predictWebcam\<close> that consumes a result.  The state is
  \<^verbatim>\<open>lastHandPos.current\<close>; the value returned is its new content and the callbacks made.
  Reading \<^verbatim>\<open>results.gestures[0][0]\<close> or \<^verbatim>\<open>results.landmarks[0][0]\<close> of an empty inner
  list yields \<^verbatim>\<open>undefined\<close>, and the property access that follows throws; the
  \<^verbatim>\<open>catch\<close> around the body swallows the exception, so the pass ends there with the
  callbacks made so far and \<^verbatim>\<open>lastHandPos\<close> as it was.
\<close>

definition handleResults ::
  "GestureRecognizerResult \<Rightarrow> (real \<times> real) option \<Rightarrow> (real \<times> real) option \<times> Callback list" where
  "handleResults results lastHandPos =
     (if length (gestures results) > 0 then
        (case hd (gestures results) of
           [] \<Rightarrow> (lastHandPos, [])
         | g # _ \<Rightarrow>
             (let name = categoryName g;
                  cbs =
                    (if score g > 0.4 then
                       (if name = ''Open_Palm'' then [OnGesture CHAOS] else []) @
                       (if name = ''Closed_Fist'' then [OnGesture FORMED] else []) @
                       [OnStatus (''DETECTED: '' @ name)]
                     else [])
              in if length (landmarks results) > 0 then
                   (case hd (landmarks results) of
                      [] \<Rightarrow> (lastHandPos, cbs)
                    | hand # _ \<Rightarrow>
                        (Some (fst hand, snd hand),
                         cbs @
                         (case lastHandPos of
                            None \<Rightarrow> []
                          | Some lastPos \<Rightarrow>
                              (let deltaX = (fst hand - fst lastPos) * SENSITIVITY;
                                   deltaY = (snd hand - snd lastPos) * SENSITIVITY;
                                   finalX = (if \<bar>deltaX\<bar> > deadzone then deltaX else 0)
                               in [OnMove finalX (- deltaY)]))))
                 else (None, cbs @ [OnMove 0 0])))
      else (None, [OnMove 0 0, OnStatus ''AI READY: NO HAND'']))"

text \<open>
  The guards before it: no result is taken unless the recogniser exists and the video
  element is ready (\<open>ready\<close>), and the pass returns at once when the canvas is missing.
  \<open>results\<close> is what \<^verbatim>\<open>recognizeForVideo\<close> returns on this pass.
\<close>

definition predictWebcam ::
  "bool \<Rightarrow> bool \<Rightarrow> GestureRecognizerResult \<Rightarrow> (real \<times> real) option \<Rightarrow>
     (real \<times> real) option \<times> Callback list" where
  "predictWebcam ready canvas results lastHandPos =
     (if ready then
        (if \<not> canvas then (lastHandPos, []) else handleResults results lastHandPos)
      else (lastHandPos, []))"

text \<open>
  \<^verbatim>\<open>GrandTreeApp\<close> wires the callbacks to its state setters:
  \<^verbatim>\<open>onGesture={setSceneState} onMove={setCameraSpeed} onStatus={setAiStatus}\<close>.
\<close>

record AppState =
  sceneState :: SceneMode
  cameraSpeed :: "real \<times> real"
  aiStatus :: string

fun dispatch :: "AppState \<Rightarrow> Callback \<Rightarrow> AppState" where
  "dispatch app (OnGesture m) = app \<lparr> sceneState := m \<rparr>"
| "dispatch app (OnMove mx my) = app \<lparr> cameraSpeed := (mx, my) \<rparr>"
| "dispatch app (OnStatus msg) = app \<lparr> aiStatus := msg \<rparr>"

definition gesturePass ::
  "bool \<Rightarrow> bool \<Rightarrow> GestureRecognizerResult \<Rightarrow> (real \<times> real) option \<times> AppState \<Rightarrow>
     (real \<times> real) option \<times> AppState" where
  "gesturePass ready canvas results st =
     (case predictWebcam ready canvas results (fst st) of
        (lastHandPos', cbs) \<Rightarrow> (lastHandPos', foldl dispatch (snd st) cbs))"

section \<open>GrandTreeApp: shake to snow\<close>

text \<open>
  The closure variables \<^verbatim>\<open>lastX\<close>, \<^verbatim>\<open>lastY\<close>, \<^verbatim>\<open>lastZ\<close> (\<^verbatim>\<open>null\<close> is \<open>None\<close>), the
  React state \<^verbatim>\<open>isSnowing\<close>, and the pending timer: \<open>timeout\<close> holds the delay in
  milliseconds with which the pending clear timer was last armed, \<open>None\<close> when none is
  pending.  \<^verbatim>\<open>clearTimeout\<close> followed by \<^verbatim>\<open>setTimeout(..., 5000)\<close> replaces whatever
  was pending by a fresh timer of 5000 ms; \<open>restarts\<close> counts these re-armings.
\<close>

record ShakeState =
  lastX :: "real option"
  lastY :: "real option"
  lastZ :: "real option"
  isSnowing :: bool
  timeout :: "nat option"
  restarts :: nat

record DeviceMotionEvent =
  accelerationIncludingGravity :: "(real option \<times> real option \<times> real option) option"

definition handleMotion :: "DeviceMotionEvent \<Rightarrow> ShakeState \<Rightarrow> ShakeState" where
  "handleMotion e s =
     (case accelerationIncludingGravity e of
        None \<Rightarrow> s
      | Some (ax, ay, az) \<Rightarrow>
          (case (ax, ay, az) of
             (Some x, Some y, Some z) \<Rightarrow>
               (let s1 =
                      (case (lastX s, lastY s, lastZ s) of
                         (Some lx, Some ly, Some lz) \<Rightarrow>
                           (let deltaX = \<bar>x - lx\<bar>;
                                deltaY = \<bar>y - ly\<bar>;
                                deltaZ = \<bar>z - lz\<bar>
                            in if deltaX + deltaY + deltaZ > 25
                               then s \<lparr> isSnowing := True, timeout := Some 5000,
                                        restarts := restarts s + 1 \<rparr>
                               else s)
                       | _ \<Rightarrow> s)
                in s1 \<lparr> lastX := Some x, lastY := Some y, lastZ := Some z \<rparr>)
           | _ \<Rightarrow> s))"

text \<open>The timer's callback \<^verbatim>\<open>() => setIsSnowing(false)\<close>, run when the timer expires.\<close>

definition timeoutExpired :: "ShakeState \<Rightarrow> ShakeState" where
  "timeoutExpired s = s \<lparr> isSnowing := False, timeout := None \<rparr>"

section \<open>OrnamentTree: placement of the foliage targets\<close>

text \<open>
  \<^verbatim>\<open>Math.random\<close> is modelled by the sequence \<open>rnd\<close> of the values its successive calls
  return and a cursor counting the calls made so far.  \<^verbatim>\<open>getTreePosition\<close> makes three
  calls, for the height, the azimuth and the radial bias, in this order.
\<close>

definition getTreePosition :: "real \<Rightarrow> real \<Rightarrow> (nat \<Rightarrow> real) \<Rightarrow> nat \<Rightarrow> vec3 \<times> nat" where
  "getTreePosition treeHeight treeRadius rnd c =
     (let h = treeHeight; rBase = treeRadius;
          y = (rnd c * h) - (h / 2);
          normalizedY = (y + (h / 2)) / h;
          currentRadius = rBase * (1 - normalizedY);
          theta = rnd (c + 1) * pi * 2;
          r = currentRadius * sqrt (0.5 + 0.5 * rnd (c + 2))
      in ((r * cos theta, y, r * sin theta), c + 3))"

definition MIN_DISTANCE :: real where
  "MIN_DISTANCE = 2.0"

text \<open>
  The inner \<^verbatim>\<open>for ... of placedPositions\<close> loop: the value of \<^verbatim>\<open>valid\<close> after it, for
  the candidate \<open>(tx, ty, tz)\<close>; it leaves at the first placed point that is too close.
\<close>

fun placedCheck :: "vec3 \<Rightarrow> vec3 list \<Rightarrow> bool" where
  "placedCheck t [] = True"
| "placedCheck (tx, ty, tz) ((px, py, pz) # rest) =
     (let dx = tx - px; dy = ty - py; dz = tz - pz
      in if dx * dx + dy * dy + dz * dz < MIN_DISTANCE * MIN_DISTANCE then False
         else placedCheck (tx, ty, tz) rest)"

text \<open>
  The \<^verbatim>\<open>while (!valid && attempts < 50)\<close> loop.  The candidate is \<open>None\<close> as long as
  \<^verbatim>\<open>tx, ty, tz\<close> are still unassigned.
\<close>

function attemptLoop ::
  "real \<Rightarrow> real \<Rightarrow> (nat \<Rightarrow> real) \<Rightarrow> vec3 list \<Rightarrow> bool \<Rightarrow> nat \<Rightarrow> vec3 option \<Rightarrow> nat \<Rightarrow>
     bool \<times> nat \<times> vec3 option \<times> nat" where
  "attemptLoop h r rnd placed valid attempts t c =
     (if \<not> valid \<and> attempts < 50 then
        (case getTreePosition h r rnd c of
           (t', c') \<Rightarrow> attemptLoop h r rnd placed (placedCheck t' placed) (attempts + 1) (Some t') c')
      else (valid, attempts, t, c))"
  by pat_completeness auto
termination
  by (relation "measure (\<lambda>(h, r, rnd, placed, valid, attempts, t, c). 50 - attempts)") auto

declare attemptLoop.simps [simp del]

text \<open>
  The state of the outer loop: \<^verbatim>\<open>placedPositions\<close>, the flat \<^verbatim>\<open>targets\<close> array and the
  cursor into the random sequence.  Two fields are bookkeeping of the model only and
  never read by it: \<open>accepted\<close> records, per point, the value of \<^verbatim>\<open>valid\<close> at the
  \<^verbatim>\<open>if (valid)\<close>, and \<open>tries\<close> the value of \<^verbatim>\<open>attempts\<close> there.  The chaos positions
  and the colours written in the same loop do not influence the targets; of the colour
  choice only its one call of \<^verbatim>\<open>Math.random\<close> is kept.
\<close>

record Placement =
  placedPositions :: "vec3 list"
  targets :: "real list"
  accepted :: "bool list"
  tries :: "nat list"
  cursor :: nat

text \<open>
  One round of the \<^verbatim>\<open>for\<close> loop, for index \<open>i\<close>.  Were the candidate still unassigned
  after the \<^verbatim>\<open>while\<close> loop the round would store \<^verbatim>\<open>undefined\<close>; the model returns
  \<open>None\<close> there.
\<close>

definition placeRound ::
  "real \<Rightarrow> real \<Rightarrow> (nat \<Rightarrow> real) \<Rightarrow> nat \<Rightarrow> Placement \<Rightarrow> Placement option" where
  "placeRound h r rnd i st =
     (case attemptLoop h r rnd (placedPositions st) False 0 None (cursor st) of
        (valid, attempts, t, c) \<Rightarrow>
          (case t of
             None \<Rightarrow> None
           | Some (tx, ty, tz) \<Rightarrow>
               (let placed' =
                      (if valid then placedPositions st @ [(tx, ty, tz)]
                       else placedPositions st @ [(tx, ty, tz)])
                in Some (st \<lparr> placedPositions := placed',
                              targets := (targets st)[i * 3 := tx, i * 3 + 1 := ty, i * 3 + 2 := tz],
                              accepted := accepted st @ [valid],
                              tries := tries st @ [attempts],
                              cursor := c + 1 \<rparr>))))"

function placeLoop ::
  "real \<Rightarrow> real \<Rightarrow> (nat \<Rightarrow> real) \<Rightarrow> nat \<Rightarrow> nat \<Rightarrow> Placement \<Rightarrow> Placement option" where
  "placeLoop h r rnd count i st =
     (if i < count then
        (case placeRound h r rnd i st of
           None \<Rightarrow> None
         | Some st' \<Rightarrow> placeLoop h r rnd count (i + 1) st')
      else Some st)"
  by pat_completeness auto
termination
  by (relation "measure (\<lambda>(h, r, rnd, count, i, st). count - i)") auto

declare placeLoop.simps [simp del]

text \<open>
  The \<^verbatim>\<open>useMemo\<close> of \<^verbatim>\<open>OrnamentTree\<close>: \<^verbatim>\<open>targets\<close> starts as a zero-filled array of
  \<^verbatim>\<open>count * 3\<close> numbers, \<^verbatim>\<open>placedPositions\<close> empty; \<open>c0\<close> is the number of calls of
  \<^verbatim>\<open>Math.random\<close> made before.
\<close>

definition OrnamentTree_useMemo :: "'c Config \<Rightarrow> (nat \<Rightarrow> real) \<Rightarrow> nat \<Rightarrow> Placement option" where
  "OrnamentTree_useMemo config rnd c0 =
     (let count = foliage (counts config)
      in placeLoop (height (tree config)) (radius (tree config)) rnd count 0
           \<lparr> placedPositions = [], targets = replicate (count * 3) 0,
             accepted = [], tries = [], cursor = c0 \<rparr>)"

text \<open>Euclidean distance of two points, and the flat layout of a list of points.\<close>

definition distanceTo :: "vec3 \<Rightarrow> vec3 \<Rightarrow> real" where
  "distanceTo a b =
     (case a of (ax, ay, az) \<Rightarrow> case b of (bx, by, bz) \<Rightarrow>
        sqrt ((ax - bx) * (ax - bx) + (ay - by) * (ay - by) + (az - bz) * (az - bz)))"

fun flat :: "vec3 list \<Rightarrow> real list" where
  "flat [] = []"
| "flat ((px, py, pz) # rest) = px # py # pz # flat rest"

section \<open>Notions used in the statements\<close>

text \<open>
  The target of an instance in a scene mode, the \<open>i\<close>-th triple of a flat coordinate
  array, and the closed segment between two points.
\<close>

definition modeTarget :: "SceneMode \<Rightarrow> vec3 \<Rightarrow> vec3 \<Rightarrow> vec3" where
  "modeTarget state formed chaos = (if state = FORMED then formed else chaos)"

definition triple :: "real list \<Rightarrow> nat \<Rightarrow> vec3" where
  "triple xs i = (xs ! (i * 3), xs ! (i * 3 + 1), xs ! (i * 3 + 2))"

definition onSegment :: "vec3 \<Rightarrow> vec3 \<Rightarrow> vec3 \<Rightarrow> bool" where
  "onSegment a b p \<longleftrightarrow>
     (\<exists>t. 0 \<le> t \<and> t \<le> 1 \<and>
        p = ((1 - t) * fst a + t * fst b,
             (1 - t) * fst (snd a) + t * fst (snd b),
             (1 - t) * snd (snd a) + t * snd (snd b)))"

text \<open>
  The position update as the specification words it, with the interpolation factor
  clamped to \<open>[0, 1]\<close>; the code is compared with it below.
\<close>

definition spec_lerp_clamped :: "vec3 \<Rightarrow> vec3 \<Rightarrow> real \<Rightarrow> real \<Rightarrow> vec3" where
  "spec_lerp_clamped cur target delta rate =
     Vector3_lerp cur target (max 0 (min 1 (delta * rate)))"

text \<open>
  The invariant of the placement loop before round \<open>i\<close>: \<open>i\<close> points are placed, the
  first \<open>3 * i\<close> slots of \<^verbatim>\<open>targets\<close> hold them, every round took between 1 and 50
  attempts and ended valid or at the 50th attempt, and a point placed with \<^verbatim>\<open>valid\<close>
  true is at least \<open>MIN_DISTANCE\<close> away from every earlier point.
\<close>

definition placementInv :: "nat \<Rightarrow> nat \<Rightarrow> Placement \<Rightarrow> bool" where
  "placementInv count i st \<longleftrightarrow>
     length (placedPositions st) = i \<and> length (accepted st) = i \<and> length (tries st) = i \<and>
     length (targets st) = count * 3 \<and>
     take (3 * i) (targets st) = flat (placedPositions st) \<and>
     list_all (\<lambda>n. 1 \<le> n \<and> n \<le> 50) (tries st) \<and>
     list_all2 (\<lambda>v n. v \<or> n = 50) (accepted st) (tries st) \<and>
     (\<forall>j < i. accepted st ! j \<longrightarrow>
        (\<forall>k < j. MIN_DISTANCE \<le> distanceTo (placedPositions st ! k) (placedPositions st ! j)))"


section \<open>Position updates\<close>

lemma lerp_onSegment:
  assumes "0 \<le> t" "t \<le> 1"
  shows "onSegment a b (Vector3_lerp a b t)"
  unfolding onSegment_def
proof (intro exI[of _ t] conjI assms)
  show "Vector3_lerp a b t =
      ((1 - t) * fst a + t * fst b, (1 - t) * fst (snd a) + t * fst (snd b),
       (1 - t) * snd (snd a) + t * snd (snd b))"
    by (cases a, cases b) (simp add: Vector3_lerp_def algebra_simps)
qed

lemma foliage_position:
  "position (OrnamentTree_instance state ts rs time delta i dummy) =
     Vector3_lerp (position dummy) (modeTarget state (triple ts i) (triple rs i)) (delta * 2)"
  by (simp add: OrnamentTree_instance_def Let_def modeTarget_def triple_def split: prod.splits)

lemma photo_currentPos:
  "currentPos (fst (PhotoOrnaments_child lookAt state elapsedTime delta i (objData, grp))) =
     Vector3_lerp (currentPos objData)
       (modeTarget state (targetPos objData) (chaosPos objData)) (delta * 2)"
  by (simp add: PhotoOrnaments_child_def Let_def modeTarget_def split: prod.splits)

lemma photo_position:
  "position (snd (PhotoOrnaments_child lookAt state elapsedTime delta i (objData, grp))) =
     currentPos (fst (PhotoOrnaments_child lookAt state elapsedTime delta i (objData, grp)))"
  by (simp add: PhotoOrnaments_child_def Let_def split: prod.splits)

lemma light_currentPos:
  "light_currentPos (fst (FairyLights_child state time delta (objData, mesh))) =
     Vector3_lerp (light_currentPos objData)
       (modeTarget state (light_targetPos objData) (light_chaosPos objData)) (delta * 2.5)"
  by (simp add: FairyLights_child_def Let_def modeTarget_def split: option.splits)

lemma light_position:
  "position (snd (FairyLights_child state time delta (objData, mesh))) =
     light_currentPos (fst (FairyLights_child state time delta (objData, mesh)))"
  by (simp add: FairyLights_child_def Let_def split: option.splits)

text \<open>
  C1 (as amended).  In each of the three categories the frame callback moves the live
  position to \<open>lerp(current, target, delta * rate)\<close>, the target being the formed position
  in FORMED mode and the chaos position otherwise, with rate 2.0 for foliage and photo
  ornaments and 2.5 for fairy lights, and with no clamp on the factor.  For
  \<open>0 \<le> delta\<close> and \<open>delta * rate \<le> 1\<close> the new position lies on the segment from the old
  position to the target.
\<close>

theorem C1_unclamped_lerp:
  assumes "0 \<le> delta"
  shows
    "position (OrnamentTree_instance state ts rs time delta i dummy) =
       Vector3_lerp (position dummy) (modeTarget state (triple ts i) (triple rs i)) (delta * 2.0)
     \<and> currentPos (fst (PhotoOrnaments_child lookAt state time delta i (photo, grp))) =
       Vector3_lerp (currentPos photo)
         (modeTarget state (targetPos photo) (chaosPos photo)) (delta * 2.0)
     \<and> position (snd (PhotoOrnaments_child lookAt state time delta i (photo, grp))) =
       currentPos (fst (PhotoOrnaments_child lookAt state time delta i (photo, grp)))
     \<and> light_currentPos (fst (FairyLights_child state time delta (light, mesh))) =
       Vector3_lerp (light_currentPos light)
         (modeTarget state (light_targetPos light) (light_chaosPos light)) (delta * 2.5)
     \<and> position (snd (FairyLights_child state time delta (light, mesh))) =
       light_currentPos (fst (FairyLights_child state time delta (light, mesh)))
     \<and> (delta * 2.0 \<le> 1 \<longrightarrow>
          onSegment (position dummy) (modeTarget state (triple ts i) (triple rs i))
            (position (OrnamentTree_instance state ts rs time delta i dummy))
        \<and> onSegment (currentPos photo) (modeTarget state (targetPos photo) (chaosPos photo))
            (currentPos (fst (PhotoOrnaments_child lookAt state time delta i (photo, grp)))))
     \<and> (delta * 2.5 \<le> 1 \<longrightarrow>
          onSegment (light_currentPos light)
            (modeTarget state (light_targetPos light) (light_chaosPos light))
            (light_currentPos (fst (FairyLights_child state time delta (light, mesh)))))"
proof -
  have f2: "0 \<le> delta * 2" and f25: "0 \<le> delta * 2.5"
    using assms by simp_all
  have seg2: "onSegment a b (Vector3_lerp a b (delta * 2))" if "delta * 2.0 \<le> 1" for a b
    using f2 that by (intro lerp_onSegment) simp_all
  have seg25: "onSegment a b (Vector3_lerp a b (delta * 2.5))" if "delta * 2.5 \<le> 1" for a b
    using f25 that by (intro lerp_onSegment) simp_all
  show ?thesis
    unfolding foliage_position photo_currentPos photo_position light_currentPos light_position
    using seg2 seg25 by simp
qed

theorem C1_unclamped_lerp_witness:
  "(0 :: real) \<le> 1 / 5
   \<and> position (OrnamentTree_instance FORMED [1, 0, 0] [0, 0, 0] 0 (1 / 5) 0
        \<lparr> position = (0, 0, 0), rotation = (0, 0, 0), scale = (1, 1, 1) \<rparr>) = (2 / 5, 0, 0)
   \<and> onSegment (0, 0, 0) (1, 0, 0) (2 / 5, 0, 0)
   \<and> light_currentPos (fst (FairyLights_child FORMED 0 (1 / 5)
        (\<lparr> light_chaosPos = (0, 4, 0), light_targetPos = (1, 0, 0), speed = 1,
            light_currentPos = (0, 0, 0), timeOffset = 0 \<rparr>,
         \<lparr> position = (0, 0, 0), rotation = (0, 0, 0), scale = (1, 1, 1),
           material = None \<rparr>))) = (1 / 2, 0, 0)
   \<and> onSegment (0, 0, 0) (1, 0, 0) (1 / 2, 0, 0)"
proof -
  have d: "(0 :: real) \<le> 1 / 5" by simp
  note w = C1_unclamped_lerp [OF d, where state = FORMED and ts = "[1, 0, 0]"
      and rs = "[0, 0, 0]" and time = 0 and i = 0
      and dummy = "\<lparr> position = (0, 0, 0), rotation = (0, 0, 0), scale = (1, 1, 1) \<rparr>"
      and photo = "\<lparr> chaosPos = (0, 0, 0), targetPos = (1, 0, 0), currentPos = (0, 0, 0),
                      rotationSpeed = (0, 0, 0) \<rparr>"
      and light = "\<lparr> light_chaosPos = (0, 4, 0), light_targetPos = (1, 0, 0), speed = 1,
            light_currentPos = (0, 0, 0), timeOffset = 0 \<rparr>"
      and mesh = "\<lparr> position = (0, 0, 0), rotation = (0, 0, 0), scale = (1, 1, 1),
           material = None \<rparr>"]
  show ?thesis
    using w
    by (simp add: foliage_position light_currentPos photo_currentPos
          modeTarget_def triple_def Vector3_lerp_def)
qed

text \<open>
  C1 as stated fails: nothing clamps the factor.  With a frame of \<open>delta = 1\<close> second a
  foliage instance at the origin whose target is \<open>(1, 0, 0)\<close> is moved to \<open>(2, 0, 0)\<close>,
  beyond the target and off the segment, where the clamped update would stop at the
  target.
\<close>

theorem C1_overshoot_counterexample:
  "position (OrnamentTree_instance FORMED [1, 0, 0] [0, 0, 0] 0 1 0
        \<lparr> position = (0, 0, 0), rotation = (0, 0, 0), scale = (1, 1, 1) \<rparr>) = (2, 0, 0)
   \<and> \<not> onSegment (0, 0, 0) (1, 0, 0)
        (position (OrnamentTree_instance FORMED [1, 0, 0] [0, 0, 0] 0 1 0
           \<lparr> position = (0, 0, 0), rotation = (0, 0, 0), scale = (1, 1, 1) \<rparr>))
   \<and> position (OrnamentTree_instance FORMED [1, 0, 0] [0, 0, 0] 0 1 0
        \<lparr> position = (0, 0, 0), rotation = (0, 0, 0), scale = (1, 1, 1) \<rparr>)
       \<noteq> spec_lerp_clamped (0, 0, 0) (1, 0, 0) 1 2.0"
  by (simp add: foliage_position modeTarget_def triple_def Vector3_lerp_def onSegment_def
        spec_lerp_clamped_def)

section \<open>Population sizes\<close>

text \<open>
  C2 (as amended).  The foliage count is the configured count (500) and the fairy-light
  count is the configured count (200) in every scene mode, and a frame keeps the number
  of foliage instances, photo groups and light meshes.  The photo-ornament count is
  \<open>min(configured cap, number of photos)\<close> in FORMED mode and the number of photos,
  uncapped, in CHAOS mode.
\<close>

theorem C2_population_sizes:
  "OrnamentTree_count state config = foliage (counts config)
   \<and> FairyLights_count state config = lights (counts config)
   \<and> OrnamentTree_count state (createConfig cs) = 500
   \<and> FairyLights_count state (createConfig cs) = 200
   \<and> ornaments (counts (createConfig cs)) = 50
   \<and> PhotoOrnaments_count FORMED config textures =
       min (ornaments (counts config)) (length textures)
   \<and> PhotoOrnaments_count CHAOS config textures = length textures
   \<and> map_option length (OrnamentTree_useFrame state n ts rs time delta (Some instances)) = Some n
   \<and> map_option length (PhotoOrnaments_useFrame lookAt state time delta (Some groups)) =
       Some (length groups)
   \<and> map_option length (FairyLights_useFrame state time delta (Some meshes)) =
       Some (length meshes)"
  by (simp add: OrnamentTree_count_def FairyLights_count_def PhotoOrnaments_count_def
        createConfig_def OrnamentTree_useFrame_def PhotoOrnaments_useFrame_def
        FairyLights_useFrame_def)

text \<open>
  C2 as stated fails: in CHAOS mode the count is not capped.  With 60 photos and the
  cap of 50 the CHAOS count is 60, neither \<open>min(50, 60)\<close> nor the FORMED count.
\<close>

theorem C2_chaos_uncapped_counterexample:
  "PhotoOrnaments_count CHAOS (createConfig ()) (replicate 60 ''photo'') = 60
   \<and> min (ornaments (counts (createConfig ()))) (length (replicate 60 ''photo'')) = 50
   \<and> PhotoOrnaments_count CHAOS (createConfig ()) (replicate 60 ''photo'')
       \<noteq> PhotoOrnaments_count FORMED (createConfig ()) (replicate 60 ''photo'')"
  by (simp add: PhotoOrnaments_count_def createConfig_def)

section \<open>Foliage scale and light intensity\<close>








section \<open>Camera polar angle\<close>

lemma Experience_useFrame_Some:
  "Experience_useFrame sp (Some c) =
     Some (c \<lparr> azimuthalAngle := azimuthalAngle c + fst sp,
               polarAngle :=
                 (if polarAngle c + snd sp > 0.1 \<and> polarAngle c + snd sp < pi - 0.1
                  then polarAngle c + snd sp else polarAngle c) \<rparr>)"
  by (simp add: Experience_useFrame_def Let_def)

lemma Experience_frames_polar:
  "0.1 < polarAngle c \<Longrightarrow> polarAngle c < pi - 0.1 \<Longrightarrow>
   \<exists>c'. Experience_frames sps (Some c) = Some c' \<and>
        0.1 < polarAngle c' \<and> polarAngle c' < pi - 0.1"
proof (induction sps arbitrary: c)
  case Nil
  then show ?case by simp
next
  case (Cons sp sps)
  show ?case
    unfolding Experience_frames.simps Experience_useFrame_Some
    by (rule Cons.IH) (use Cons.prems in simp_all)
qed

text \<open>
  C6.  A frame writes the polar angle \<open>polar + signal.y\<close> only when that value lies
  strictly between \<open>0.1\<close> and \<open>\<pi> - 0.1\<close>, and otherwise leaves the polar angle as it was
  (the azimuth is updated either way); so after any sequence of frames that starts with
  the polar angle strictly inside \<open>(0.1, \<pi> - 0.1)\<close> the polar angle is still strictly
  inside it.
\<close>

theorem C6_polar_stays_inside:
  assumes "0.1 < polarAngle c" and "polarAngle c < pi - 0.1"
  shows
    "Experience_useFrame sp (Some c) =
       Some (c \<lparr> azimuthalAngle := azimuthalAngle c + fst sp,
                 polarAngle :=
                   (if polarAngle c + snd sp > 0.1 \<and> polarAngle c + snd sp < pi - 0.1
                    then polarAngle c + snd sp else polarAngle c) \<rparr>)
     \<and> (\<exists>c'. Experience_frames sps (Some c) = Some c' \<and>
            0.1 < polarAngle c' \<and> polarAngle c' < pi - 0.1)"
  using Experience_useFrame_Some[of sp c] Experience_frames_polar[OF assms, of sps]
  by simp

theorem C6_polar_stays_inside_witness:
  "0.1 < polarAngle \<lparr> azimuthalAngle = 0, polarAngle = 1 \<rparr>
   \<and> polarAngle \<lparr> azimuthalAngle = 0, polarAngle = 1 \<rparr> < pi - 0.1
   \<and> Experience_useFrame (0, 5) (Some \<lparr> azimuthalAngle = 0, polarAngle = 1 \<rparr>) =
       Some \<lparr> azimuthalAngle = 0, polarAngle = 1 \<rparr>
   \<and> Experience_frames [(0, 5), (1 / 5, 1 / 2)]
         (Some \<lparr> azimuthalAngle = 0, polarAngle = 1 \<rparr>) =
       Some \<lparr> azimuthalAngle = 1 / 5, polarAngle = 3 / 2 \<rparr>
   \<and> 0.1 < polarAngle \<lparr> azimuthalAngle = 1 / 5, polarAngle = 3 / 2 \<rparr>
   \<and> polarAngle \<lparr> azimuthalAngle = 1 / 5, polarAngle = 3 / 2 \<rparr> < pi - 0.1"
proof -
  have lo: "0.1 < polarAngle \<lparr> azimuthalAngle = 0, polarAngle = 1 \<rparr>" by simp
  have hi: "polarAngle \<lparr> azimuthalAngle = 0, polarAngle = 1 \<rparr> < pi - 0.1"
    using pi_ge_two by simp
  have out: "\<not> (6 :: real) < pi - 0.1" using pi_less_4 by simp
  have inside: "(3 / 2 :: real) < pi - 0.1" using pi_ge_two by simp
  note w = C6_polar_stays_inside [OF lo hi, of "(0, 5)" "[(0, 5), (1 / 5, 1 / 2)]"]
  have dropped: "Experience_useFrame (0, 5) (Some \<lparr> azimuthalAngle = 0, polarAngle = 1 \<rparr>) =
       Some \<lparr> azimuthalAngle = 0, polarAngle = 1 \<rparr>"
    using w [THEN conjunct1] out by simp
  have run: "Experience_frames [(0, 5), (1 / 5, 1 / 2)]
         (Some \<lparr> azimuthalAngle = 0, polarAngle = 1 \<rparr>) =
       Some \<lparr> azimuthalAngle = 1 / 5, polarAngle = 3 / 2 \<rparr>"
    using inside out by (simp add: Experience_useFrame_Some)
  from w [THEN conjunct2] obtain c' where
    "Experience_frames [(0, 5), (1 / 5, 1 / 2)]
         (Some \<lparr> azimuthalAngle = 0, polarAngle = 1 \<rparr>) = Some c'"
    and bounds: "0.1 < polarAngle c'" "polarAngle c' < pi - 0.1"
    by blast
  with run have c': "c' = \<lparr> azimuthalAngle = 1 / 5, polarAngle = 3 / 2 \<rparr>" by simp
  show ?thesis
    using bounds unfolding c' by (intro conjI lo hi dropped run)
qed

section \<open>Gesture samples\<close>

lemma snd_gesturePass:
  "snd (gesturePass rdy cnv results (l, app)) =
     foldl dispatch app (snd (predictWebcam rdy cnv results l))"
  by (simp add: gesturePass_def split: prod.splits)

lemma predictWebcam_on: "predictWebcam True True results l = handleResults results l"
  by (simp add: predictWebcam_def)

lemma predictWebcam_cases:
  "predictWebcam rdy cnv results l = handleResults results l \<or>
   predictWebcam rdy cnv results l = (l, [])"
  by (simp add: predictWebcam_def)

lemma handleResults_fist:
  assumes "gestures results = (g # gs) # hands" "score g > 0.4"
    "categoryName g = ''Closed_Fist''"
  shows "sceneState (foldl dispatch app (snd (handleResults results l))) = FORMED"
  using assms by (simp add: handleResults_def Let_def split: list.splits option.splits)

lemma handleResults_palm:
  assumes "gestures results = (g # gs) # hands" "score g > 0.4"
    "categoryName g = ''Open_Palm''"
  shows "sceneState (foldl dispatch app (snd (handleResults results l))) = CHAOS"
  using assms by (simp add: handleResults_def Let_def split: list.splits option.splits)

lemma handleResults_low:
  assumes "gestures results = (g # gs) # hands" "score g \<le> 0.4"
  shows "sceneState (foldl dispatch app (snd (handleResults results l))) = sceneState app"
  using assms by (simp add: handleResults_def Let_def split: list.splits option.splits)

lemma within_deadzone:
  assumes "\<bar>hx - lx\<bar> \<le> 0.002 / SENSITIVITY"
  shows "\<not> \<bar>(hx - lx) * SENSITIVITY\<bar> > deadzone"
proof -
  have "\<bar>(hx - lx) * SENSITIVITY\<bar> = \<bar>hx - lx\<bar> * 5"
    unfolding SENSITIVITY_def by (subst abs_mult) simp
  moreover have "\<bar>hx - lx\<bar> * 5 \<le> 0.002"
    using assms by (simp add: SENSITIVITY_def)
  ultimately show ?thesis unfolding deadzone_def by simp
qed

lemma predictWebcam_still_hand:
  assumes "gestures results = (g # gs) # hands"
      and "landmarks results = (hand # lms) # lhands"
      and "\<bar>fst hand - fst lastPos\<bar> \<le> 0.002 / SENSITIVITY"
  shows "predictWebcam True True results (Some lastPos) =
     (Some hand,
      (if score g > 0.4 then
         (if categoryName g = ''Open_Palm'' then [OnGesture CHAOS] else []) @
         (if categoryName g = ''Closed_Fist'' then [OnGesture FORMED] else []) @
         [OnStatus (''DETECTED: '' @ categoryName g)]
       else []) @ [OnMove 0 (- (SENSITIVITY * (snd hand - snd lastPos)))])"
  using assms(1,2) within_deadzone[OF assms(3)]
  by (simp add: predictWebcam_def handleResults_def Let_def mult.commute)

text \<open>
  C5.  \<open>SENSITIVITY\<close> is 5.  When a sample with a gesture and a hand landmark follows a
  retained hand position and the raw horizontal difference satisfies
  \<open>|\<Delta>x| \<le> 0.002 / SENSITIVITY\<close>, the last callback of the pass is
  \<open>onMove {x: 0, y: - SENSITIVITY * \<Delta>y}\<close>, which becomes the camera speed: the x component
  is exactly 0 and the y component is the inverted, scaled difference whatever its size.
\<close>

theorem C5_deadzone_x_only:
  assumes "gestures results = (g # gs) # hands"
      and "landmarks results = (hand # lms) # lhands"
      and "\<bar>fst hand - fst lastPos\<bar> \<le> 0.002 / SENSITIVITY"
  shows "SENSITIVITY = 5.0
     \<and> (\<exists>cbs. predictWebcam True True results (Some lastPos) =
          (Some hand, cbs @ [OnMove 0 (- (SENSITIVITY * (snd hand - snd lastPos)))]))
     \<and> cameraSpeed (snd (gesturePass True True results (Some lastPos, app))) =
          (0, - (SENSITIVITY * (snd hand - snd lastPos)))"
proof (intro conjI)
  show "SENSITIVITY = 5.0" by (simp add: SENSITIVITY_def)
  show "\<exists>cbs. predictWebcam True True results (Some lastPos) =
          (Some hand, cbs @ [OnMove 0 (- (SENSITIVITY * (snd hand - snd lastPos)))])"
    unfolding predictWebcam_still_hand[OF assms] by blast
  show "cameraSpeed (snd (gesturePass True True results (Some lastPos, app))) =
          (0, - (SENSITIVITY * (snd hand - snd lastPos)))"
    unfolding snd_gesturePass predictWebcam_still_hand[OF assms] by simp
qed

theorem C5_deadzone_x_only_witness:
  "\<bar>fst (1 / 5000 :: real, 1 / 10000 :: real) - fst (0 :: real, 0 :: real)\<bar>
      \<le> 0.002 / SENSITIVITY
   \<and> cameraSpeed (snd (gesturePass True True
        \<lparr> gestures = [[\<lparr> categoryName = ''Victory'', score = 0.9 \<rparr>]],
          landmarks = [[(1 / 5000, 1 / 10000)]] \<rparr>
        (Some (0, 0),
         \<lparr> sceneState = FORMED, cameraSpeed = (0, 0), aiStatus = ''AI READY'' \<rparr>))) =
      (0, - (SENSITIVITY * (snd (1 / 5000 :: real, 1 / 10000 :: real) - snd (0 :: real, 0 :: real))))
   \<and> - (SENSITIVITY * (snd (1 / 5000 :: real, 1 / 10000 :: real) - snd (0 :: real, 0 :: real)))
       = - (1 / 2000)"
proof -
  have small: "\<bar>fst (1 / 5000 :: real, 1 / 10000 :: real) - fst (0 :: real, 0 :: real)\<bar>
      \<le> 0.002 / SENSITIVITY"
    by (simp add: SENSITIVITY_def)
  have gs: "gestures \<lparr> gestures = [[\<lparr> categoryName = ''Victory'', score = 0.9 \<rparr>]],
          landmarks = [[(1 / 5000, 1 / 10000)]] \<rparr> =
        (\<lparr> categoryName = ''Victory'', score = 0.9 \<rparr> # []) # []"
    by simp
  have ls: "landmarks \<lparr> gestures = [[\<lparr> categoryName = ''Victory'', score = 0.9 \<rparr>]],
          landmarks = [[(1 / 5000, 1 / 10000)]] \<rparr> = ((1 / 5000, 1 / 10000) # []) # []"
    by simp
  note w = C5_deadzone_x_only [OF gs ls small,
      of "\<lparr> sceneState = FORMED, cameraSpeed = (0, 0), aiStatus = ''AI READY'' \<rparr>"]
  have val: "- (SENSITIVITY * (snd (1 / 5000 :: real, 1 / 10000 :: real) - snd (0 :: real, 0 :: real)))
       = - (1 / 2000)"
    by (simp add: SENSITIVITY_def)
  show ?thesis
    by (intro conjI small val w [THEN conjunct2, THEN conjunct2])
qed

text \<open>
  C7.  For a sample whose first gesture category is \<open>g\<close>: with a score above 0.4 the label
  \<^verbatim>\<open>Closed_Fist\<close> sets the scene mode to FORMED and the label \<^verbatim>\<open>Open_Palm\<close> sets it to
  CHAOS, whatever the mode was (the recogniser being ready and the canvas mounted, so
  that the sample is processed); with a score of at most 0.4 the scene mode stays as it
  was, whatever the label.
\<close>

theorem C7_gesture_mode_change:
  assumes "gestures results = (g # gs) # hands"
  shows "(score g > 0.4 \<and> categoryName g = ''Closed_Fist'' \<longrightarrow>
            sceneState (snd (gesturePass True True results (l, app))) = FORMED)
       \<and> (score g > 0.4 \<and> categoryName g = ''Open_Palm'' \<longrightarrow>
            sceneState (snd (gesturePass True True results (l, app))) = CHAOS)
       \<and> (score g \<le> 0.4 \<longrightarrow>
            sceneState (snd (gesturePass ready canvas results (l, app))) = sceneState app)"
proof -
  have low: "score g \<le> 0.4 \<Longrightarrow>
      sceneState (snd (gesturePass ready canvas results (l, app))) = sceneState app"
    using predictWebcam_cases[of ready canvas results l] handleResults_low[OF assms, of app l]
    by (auto simp add: snd_gesturePass)
  show ?thesis
    using handleResults_fist[OF assms, of app l] handleResults_palm[OF assms, of app l] low
    by (simp add: snd_gesturePass predictWebcam_on)
qed

theorem C7_gesture_mode_change_witness:
  "sceneState (snd (gesturePass True True
      \<lparr> gestures = [[\<lparr> categoryName = ''Closed_Fist'', score = 0.5 \<rparr>]], landmarks = [] \<rparr>
      (None, \<lparr> sceneState = CHAOS, cameraSpeed = (0, 0), aiStatus = ''AI READY'' \<rparr>))) = FORMED
   \<and> sceneState (snd (gesturePass True True
      \<lparr> gestures = [[\<lparr> categoryName = ''Open_Palm'', score = 0.5 \<rparr>]], landmarks = [] \<rparr>
      (None, \<lparr> sceneState = FORMED, cameraSpeed = (0, 0), aiStatus = ''AI READY'' \<rparr>))) = CHAOS
   \<and> sceneState (snd (gesturePass True True
      \<lparr> gestures = [[\<lparr> categoryName = ''Closed_Fist'', score = 0.3 \<rparr>]], landmarks = [] \<rparr>
      (None, \<lparr> sceneState = CHAOS, cameraSpeed = (0, 0), aiStatus = ''AI READY'' \<rparr>))) = CHAOS"
  using C7_gesture_mode_change [where results =
          "\<lparr> gestures = [[\<lparr> categoryName = ''Closed_Fist'', score = 0.5 \<rparr>]], landmarks = [] \<rparr>"
        and g = "\<lparr> categoryName = ''Closed_Fist'', score = 0.5 \<rparr>" and gs = "[]"
        and hands = "[]" and l = None
        and app = "\<lparr> sceneState = CHAOS, cameraSpeed = (0, 0), aiStatus = ''AI READY'' \<rparr>"]
      C7_gesture_mode_change [where results =
          "\<lparr> gestures = [[\<lparr> categoryName = ''Open_Palm'', score = 0.5 \<rparr>]], landmarks = [] \<rparr>"
        and g = "\<lparr> categoryName = ''Open_Palm'', score = 0.5 \<rparr>" and gs = "[]"
        and hands = "[]" and l = None
        and app = "\<lparr> sceneState = FORMED, cameraSpeed = (0, 0), aiStatus = ''AI READY'' \<rparr>"]
      C7_gesture_mode_change [where results =
          "\<lparr> gestures = [[\<lparr> categoryName = ''Closed_Fist'', score = 0.3 \<rparr>]], landmarks = [] \<rparr>"
        and g = "\<lparr> categoryName = ''Closed_Fist'', score = 0.3 \<rparr>" and gs = "[]"
        and hands = "[]" and l = None and ready = True and canvas = True
        and app = "\<lparr> sceneState = CHAOS, cameraSpeed = (0, 0), aiStatus = ''AI READY'' \<rparr>"]
  by simp

section \<open>Shake detection\<close>

text \<open>
  C8.  For a device-motion sample with all three components present: when a previous
  sample is retained and \<open>|\<Delta>x| + |\<Delta>y| + |\<Delta>z| > 25\<close>, the snow flag is set and the clear
  timer is re-armed with 5000 ms; when a previous sample is retained and the sum is at
  most 25, and when no previous sample is retained, the flag and the timer are left as
  they were.  Either way the sample becomes the retained one.
\<close>

theorem C8_shake_trigger:
  assumes "accelerationIncludingGravity e = Some (Some x, Some y, Some z)"
  shows "(lastX s = Some lx \<and> lastY s = Some ly \<and> lastZ s = Some lz \<and>
            \<bar>x - lx\<bar> + \<bar>y - ly\<bar> + \<bar>z - lz\<bar> > 25 \<longrightarrow>
            isSnowing (handleMotion e s) \<and> timeout (handleMotion e s) = Some 5000 \<and>
            restarts (handleMotion e s) = restarts s + 1)
       \<and> (lastX s = Some lx \<and> lastY s = Some ly \<and> lastZ s = Some lz \<and>
            \<bar>x - lx\<bar> + \<bar>y - ly\<bar> + \<bar>z - lz\<bar> \<le> 25 \<longrightarrow>
            isSnowing (handleMotion e s) = isSnowing s \<and>
            timeout (handleMotion e s) = timeout s \<and>
            restarts (handleMotion e s) = restarts s)
       \<and> (lastX s = None \<or> lastY s = None \<or> lastZ s = None \<longrightarrow>
            isSnowing (handleMotion e s) = isSnowing s \<and>
            timeout (handleMotion e s) = timeout s \<and>
            restarts (handleMotion e s) = restarts s)
       \<and> lastX (handleMotion e s) = Some x \<and> lastY (handleMotion e s) = Some y
       \<and> lastZ (handleMotion e s) = Some z"
  using assms by (auto simp add: handleMotion_def Let_def split: option.splits)

theorem C8_shake_trigger_witness:
  "isSnowing (handleMotion \<lparr> accelerationIncludingGravity = Some (Some 10, Some 10, Some 10) \<rparr>
      \<lparr> lastX = Some 0, lastY = Some 0, lastZ = Some 0, isSnowing = False, timeout = None,
        restarts = 0 \<rparr>)
   \<and> timeout (handleMotion \<lparr> accelerationIncludingGravity = Some (Some 10, Some 10, Some 10) \<rparr>
      \<lparr> lastX = Some 0, lastY = Some 0, lastZ = Some 0, isSnowing = False, timeout = None,
        restarts = 0 \<rparr>) = Some 5000
   \<and> \<not> isSnowing (handleMotion \<lparr> accelerationIncludingGravity = Some (Some 10, Some 10, Some 5) \<rparr>
      \<lparr> lastX = Some 0, lastY = Some 0, lastZ = Some 0, isSnowing = False, timeout = None,
        restarts = 0 \<rparr>)
   \<and> \<not> isSnowing (handleMotion \<lparr> accelerationIncludingGravity = Some (Some 30, Some 30, Some 30) \<rparr>
      \<lparr> lastX = None, lastY = None, lastZ = None, isSnowing = False, timeout = None,
        restarts = 0 \<rparr>)"
  using C8_shake_trigger [where e = "\<lparr> accelerationIncludingGravity = Some (Some 10, Some 10, Some 10) \<rparr>"
        and x = 10 and y = 10 and z = 10 and lx = 0 and ly = 0 and lz = 0
        and s = "\<lparr> lastX = Some 0, lastY = Some 0, lastZ = Some 0, isSnowing = False,
                   timeout = None, restarts = 0 \<rparr>"]
      C8_shake_trigger [where e = "\<lparr> accelerationIncludingGravity = Some (Some 10, Some 10, Some 5) \<rparr>"
        and x = 10 and y = 10 and z = 5 and lx = 0 and ly = 0 and lz = 0
        and s = "\<lparr> lastX = Some 0, lastY = Some 0, lastZ = Some 0, isSnowing = False,
                   timeout = None, restarts = 0 \<rparr>"]
      C8_shake_trigger [where e = "\<lparr> accelerationIncludingGravity = Some (Some 30, Some 30, Some 30) \<rparr>"
        and x = 30 and y = 30 and z = 30
        and s = "\<lparr> lastX = None, lastY = None, lastZ = None, isSnowing = False,
                   timeout = None, restarts = 0 \<rparr>"]
  by simp

section \<open>Foliage placement\<close>

subsection \<open>The attempt loop\<close>

lemma attemptLoop_inv:
  "attemptLoop h r rnd placed valid attempts t c = (v, n, t', c') \<Longrightarrow>
   attempts \<le> 50 \<Longrightarrow>
   (valid \<longrightarrow> 0 < attempts \<and> (\<exists>p. t = Some p \<and> placedCheck p placed)) \<Longrightarrow>
   (0 < attempts \<longrightarrow> t = Some (fst (getTreePosition h r rnd (c - 3))) \<and> 3 \<le> c) \<Longrightarrow>
   n \<le> 50 \<and> attempts \<le> n \<and> (v \<or> n = 50) \<and>
   (v \<longrightarrow> 0 < n \<and> (\<exists>p. t' = Some p \<and> placedCheck p placed)) \<and>
   (0 < n \<longrightarrow> t' = Some (fst (getTreePosition h r rnd (c' - 3))) \<and> 3 \<le> c') \<and>
   c' = c + 3 * (n - attempts)"
proof (induction h r rnd placed valid attempts t c rule: attemptLoop.induct)
  case (1 h r rnd placed valid attempts t c)
  show ?case
  proof (cases "\<not> valid \<and> attempts < 50")
    case False
    have "(valid, attempts, t, c) = (v, n, t', c')"
      using "1.prems"(1) False by (subst (asm) attemptLoop.simps) simp
    then have eqs: "v = valid" "n = attempts" "t' = t" "c' = c" by simp_all
    from False "1.prems"(2) have stop: "valid \<or> attempts = 50" by auto
    have arith: "attempts \<le> attempts" "c = c + 3 * (attempts - attempts)" by simp_all
    show ?thesis
      unfolding eqs using "1.prems"(2-4) stop arith by blast
  next
    case True
    obtain p where gp: "getTreePosition h r rnd c = (p, c + 3)"
      by (simp add: getTreePosition_def Let_def)
    have run: "attemptLoop h r rnd placed (placedCheck p placed) (attempts + 1) (Some p) (c + 3)
        = (v, n, t', c')"
      using "1.prems"(1) True gp by (subst (asm) attemptLoop.simps) simp
    have p: "fst (getTreePosition h r rnd (c + 3 - 3)) = p"
      using gp by simp
    have res: "n \<le> 50 \<and> attempts + 1 \<le> n \<and> (v \<or> n = 50) \<and>
      (v \<longrightarrow> 0 < n \<and> (\<exists>p. t' = Some p \<and> placedCheck p placed)) \<and>
      (0 < n \<longrightarrow> t' = Some (fst (getTreePosition h r rnd (c' - 3))) \<and> 3 \<le> c') \<and>
      c' = c + 3 + 3 * (n - (attempts + 1))"
    proof (rule "1.IH"[OF True gp[symmetric] run])
      show "attempts + 1 \<le> 50" using True by simp
      show "placedCheck p placed \<longrightarrow>
          0 < attempts + 1 \<and> (\<exists>q. Some p = Some q \<and> placedCheck q placed)"
        by simp
      show "0 < attempts + 1 \<longrightarrow>
          Some p = Some (fst (getTreePosition h r rnd (c + 3 - 3))) \<and> 3 \<le> c + 3"
        unfolding p by simp
    qed
    then have "c' = c + 3 * (n - attempts)" "attempts \<le> n" by linarith+
    with res show ?thesis by blast
  qed
qed

lemma attemptLoop_start:
  "\<exists>v n p. attemptLoop h r rnd placed False 0 None c = (v, n, Some p, c + 3 * n) \<and>
     1 \<le> n \<and> n \<le> 50 \<and> (v \<or> n = 50) \<and> (v \<longrightarrow> placedCheck p placed) \<and>
     p = fst (getTreePosition h r rnd (c + 3 * n - 3))"
proof -
  obtain v n t' c' where run: "attemptLoop h r rnd placed False 0 None c = (v, n, t', c')"
    by (metis prod_cases4)
  have inv0: "n \<le> 50 \<and> 0 \<le> n \<and> (v \<or> n = 50) \<and>
      (v \<longrightarrow> 0 < n \<and> (\<exists>p. t' = Some p \<and> placedCheck p placed)) \<and>
      (0 < n \<longrightarrow> t' = Some (fst (getTreePosition h r rnd (c' - 3))) \<and> 3 \<le> c') \<and>
      c' = c + 3 * (n - 0)"
    by (rule attemptLoop_inv[OF run]) simp_all
  have inv: "n \<le> 50" "v \<or> n = 50"
     "v \<longrightarrow> 0 < n \<and> (\<exists>p. t' = Some p \<and> placedCheck p placed)"
     "0 < n \<longrightarrow> t' = Some (fst (getTreePosition h r rnd (c' - 3))) \<and> 3 \<le> c'"
     "c' = c + 3 * (n - 0)"
    using inv0 by blast+
  from inv(2,3) have pos: "0 < n" by auto
  with inv(4) have t': "t' = Some (fst (getTreePosition h r rnd (c' - 3)))" by simp
  define p where "p = fst (getTreePosition h r rnd (c' - 3))"
  have chk: "placedCheck p placed" if v
  proof -
    from inv(3) that obtain q where "t' = Some q" "placedCheck q placed" by blast
    with t' show ?thesis by (simp add: p_def)
  qed
  have c': "c' = c + 3 * n" using inv(5) by simp
  have "attemptLoop h r rnd placed False 0 None c = (v, n, Some p, c + 3 * n)"
    using run t' c' by (simp add: p_def)
  moreover have "p = fst (getTreePosition h r rnd (c + 3 * n - 3))"
    using c' by (simp add: p_def)
  ultimately show ?thesis
    using pos inv(1,2) chk by (intro exI[of _ v] exI[of _ n] exI[of _ p]) simp
qed

subsection \<open>The distance check\<close>

lemma placedCheck_iff:
  "placedCheck t ps \<longleftrightarrow>
     (\<forall>p \<in> set ps.
        \<not> (fst t - fst p) * (fst t - fst p)
          + (fst (snd t) - fst (snd p)) * (fst (snd t) - fst (snd p))
          + (snd (snd t) - snd (snd p)) * (snd (snd t) - snd (snd p))
          < MIN_DISTANCE * MIN_DISTANCE)"
  by (induction t ps rule: placedCheck.induct) (auto simp add: Let_def)

lemma placedCheck_distance:
  assumes "placedCheck t ps" "p \<in> set ps"
  shows "MIN_DISTANCE \<le> distanceTo p t"
proof -
  obtain tx ty tz where t: "t = (tx, ty, tz)" by (cases t) auto
  obtain px py pz where p: "p = (px, py, pz)" by (cases p) auto
  have "4 \<le> (tx - px) * (tx - px) + (ty - py) * (ty - py) + (tz - pz) * (tz - pz)"
    using assms by (auto simp add: placedCheck_iff t p MIN_DISTANCE_def)
  also have "\<dots> = (px - tx) * (px - tx) + (py - ty) * (py - ty) + (pz - tz) * (pz - tz)"
    by (simp add: algebra_simps)
  finally have "sqrt 4 \<le>
      sqrt ((px - tx) * (px - tx) + (py - ty) * (py - ty) + (pz - tz) * (pz - tz))"
    by (simp only: real_sqrt_le_iff)
  moreover have "sqrt 4 = (2::real)"
    using real_sqrt_abs[of 2] by simp
  ultimately show ?thesis
    by (simp add: distanceTo_def t p MIN_DISTANCE_def)
qed

subsection \<open>The flat target array\<close>

lemma flat_snoc: "flat (ps @ [(a, b, c)]) = flat ps @ [a, b, c]"
  by (induction ps rule: flat.induct) auto

lemma take_update3:
  assumes "3 * i + 3 \<le> length xs"
  shows "take (3 * (i + 1)) (xs[i * 3 := a, i * 3 + 1 := b, i * 3 + 2 := c]) =
     take (3 * i) xs @ [a, b, c]"
proof (rule nth_equalityI)
  show "length (take (3 * (i + 1)) (xs[i * 3 := a, i * 3 + 1 := b, i * 3 + 2 := c])) =
      length (take (3 * i) xs @ [a, b, c])"
    using assms by simp
next
  fix k assume "k < length (take (3 * (i + 1)) (xs[i * 3 := a, i * 3 + 1 := b, i * 3 + 2 := c]))"
  then have k: "k < 3 * i + 3" by simp
  consider "k < 3 * i" | "k = 3 * i" | "k = 3 * i + 1" | "k = 3 * i + 2"
    using k by linarith
  then show "take (3 * (i + 1)) (xs[i * 3 := a, i * 3 + 1 := b, i * 3 + 2 := c]) ! k =
      (take (3 * i) xs @ [a, b, c]) ! k"
    using assms by cases (simp_all add: nth_append mult.commute)
qed

subsection \<open>One round and the whole loop\<close>

lemma placeRound_result:
  "\<exists>v n p. attemptLoop h r rnd (placedPositions st) False 0 None (cursor st) =
       (v, n, Some p, cursor st + 3 * n) \<and>
     1 \<le> n \<and> n \<le> 50 \<and> (v \<or> n = 50) \<and> (v \<longrightarrow> placedCheck p (placedPositions st)) \<and>
     p = fst (getTreePosition h r rnd (cursor st + 3 * n - 3)) \<and>
     placeRound h r rnd i st =
       Some (st \<lparr> placedPositions := placedPositions st @ [p],
                 targets := (targets st)[i * 3 := fst p, i * 3 + 1 := fst (snd p),
                                         i * 3 + 2 := snd (snd p)],
                 accepted := accepted st @ [v], tries := tries st @ [n],
                 cursor := cursor st + 3 * n + 1 \<rparr>)"
proof -
  obtain v n p where
    run: "attemptLoop h r rnd (placedPositions st) False 0 None (cursor st) =
        (v, n, Some p, cursor st + 3 * n)"
    and rest: "1 \<le> n" "n \<le> 50" "v \<or> n = 50" "v \<longrightarrow> placedCheck p (placedPositions st)"
      "p = fst (getTreePosition h r rnd (cursor st + 3 * n - 3))"
    using attemptLoop_start[of h r rnd "placedPositions st" "cursor st"] by blast
  have "placeRound h r rnd i st =
       Some (st \<lparr> placedPositions := placedPositions st @ [p],
                 targets := (targets st)[i * 3 := fst p, i * 3 + 1 := fst (snd p),
                                         i * 3 + 2 := snd (snd p)],
                 accepted := accepted st @ [v], tries := tries st @ [n],
                 cursor := cursor st + 3 * n + 1 \<rparr>)"
    by (cases p) (simp add: placeRound_def run)
  with run rest show ?thesis by blast
qed

lemma placeRound_inv:
  assumes inv: "placementInv count i st" and i: "i < count"
  shows "\<exists>st'. placeRound h r rnd i st = Some st' \<and> placementInv count (i + 1) st'"
proof -
  obtain v n p where n: "1 \<le> n" "n \<le> 50" and vn: "v \<or> n = 50"
    and chk: "v \<longrightarrow> placedCheck p (placedPositions st)"
    and round: "placeRound h r rnd i st =
       Some (st \<lparr> placedPositions := placedPositions st @ [p],
                 targets := (targets st)[i * 3 := fst p, i * 3 + 1 := fst (snd p),
                                         i * 3 + 2 := snd (snd p)],
                 accepted := accepted st @ [v], tries := tries st @ [n],
                 cursor := cursor st + 3 * n + 1 \<rparr>)"
    using placeRound_result[of h r rnd st i] by blast
  define st' where "st' = st \<lparr> placedPositions := placedPositions st @ [p],
      targets := (targets st)[i * 3 := fst p, i * 3 + 1 := fst (snd p), i * 3 + 2 := snd (snd p)],
      accepted := accepted st @ [v], tries := tries st @ [n],
      cursor := cursor st + 3 * n + 1 \<rparr>"
  obtain tx ty tz where p: "p = (tx, ty, tz)" by (cases p) auto
  from inv have len: "length (placedPositions st) = i" "length (accepted st) = i"
      "length (tries st) = i" "length (targets st) = count * 3"
    and tk: "take (3 * i) (targets st) = flat (placedPositions st)"
    and tr: "list_all (\<lambda>n. 1 \<le> n \<and> n \<le> 50) (tries st)"
    and av: "list_all2 (\<lambda>v n. v \<or> n = 50) (accepted st) (tries st)"
    and far: "\<And>j k. j < i \<Longrightarrow> accepted st ! j \<Longrightarrow> k < j \<Longrightarrow>
        MIN_DISTANCE \<le> distanceTo (placedPositions st ! k) (placedPositions st ! j)"
    by (simp_all add: placementInv_def)
  have room: "3 * i + 3 \<le> length (targets st)" using len(4) i by simp
  have tk': "take (3 * (i + 1)) (targets st') = flat (placedPositions st')"
    using take_update3[OF room, of tx ty tz] tk by (simp add: st'_def flat_snoc p)
  have far': "MIN_DISTANCE \<le> distanceTo (placedPositions st' ! k) (placedPositions st' ! j)"
    if j: "j < i + 1" and acc: "accepted st' ! j" and k: "k < j" for j k
  proof (cases "j < i")
    case True
    with k have "k < i" by simp
    with True len far[OF True _ k] acc show ?thesis
      by (simp add: st'_def nth_append)
  next
    case False
    with j have ji: "j = i" by simp
    with acc len have v by (simp add: st'_def nth_append)
    with chk have pc: "placedCheck p (placedPositions st)" by simp
    from k ji len have mem: "placedPositions st ! k \<in> set (placedPositions st)" by simp
    from placedCheck_distance[OF pc mem] k ji len show ?thesis
      by (simp add: st'_def nth_append)
  qed
  have "placementInv count (i + 1) st'"
    unfolding placementInv_def
  proof (intro conjI allI impI)
    show "take (3 * (i + 1)) (targets st') = flat (placedPositions st')" by (rule tk')
    show "list_all (\<lambda>n. 1 \<le> n \<and> n \<le> 50) (tries st')"
      using tr n by (simp add: st'_def)
    show "list_all2 (\<lambda>v n. v \<or> n = 50) (accepted st') (tries st')"
      using av vn len by (simp add: st'_def list_all2_appendI)
    show "MIN_DISTANCE \<le> distanceTo (placedPositions st' ! k) (placedPositions st' ! j)"
      if "j < i + 1" "accepted st' ! j" "k < j" for j k
      using that by (rule far')
  qed (simp_all add: st'_def len)
  with round show ?thesis unfolding st'_def by blast
qed

lemma placeLoop_inv:
  "placementInv count i st \<Longrightarrow> i \<le> count \<Longrightarrow>
     \<exists>st'. placeLoop h r rnd count i st = Some st' \<and> placementInv count count st'"
proof (induction h r rnd count i st rule: placeLoop.induct)
  case (1 h r rnd count i st)
  show ?case
  proof (cases "i < count")
    case False
    with "1.prems" have "i = count" by simp
    with "1.prems"(1) show ?thesis
      by (subst placeLoop.simps) simp
  next
    case True
    from placeRound_inv[OF "1.prems"(1) True] obtain st1 where
      r1: "placeRound h r rnd i st = Some st1" and i1: "placementInv count (i + 1) st1"
      by blast
    from True have "i + 1 \<le> count" by simp
    from "1.IH"[OF True r1 i1 this] obtain st' where
      "placeLoop h r rnd count (i + 1) st1 = Some st'" "placementInv count count st'"
      by blast
    with True r1 show ?thesis
      by (subst placeLoop.simps) simp
  qed
qed

lemma placementInv_init:
  "placementInv count 0 \<lparr> placedPositions = [], targets = replicate (count * 3) 0,
             accepted = [], tries = [], cursor = c0 \<rparr>"
  by (simp add: placementInv_def)

lemma useMemo_inv:
  "\<exists>st. OrnamentTree_useMemo config rnd c0 = Some st \<and>
     placementInv (foliage (counts config)) (foliage (counts config)) st"
  unfolding OrnamentTree_useMemo_def Let_def
  by (rule placeLoop_inv[OF placementInv_init]) simp

subsection \<open>Retries and the distance check\<close>









subsection \<open>Two runs on concrete draws\<close>

text \<open>
  Two points, tree height 28 and radius 12.  With all draws 0 both candidates coincide,
  so the second point exhausts its 50 attempts and is placed by the fallback.  With the
  height draws 0 and 1/2, the azimuth draws 0 and the bias draws 1/8 the points are
  \<open>(9, -14, 0)\<close> and \<open>(9/2, 0, 0)\<close>, and each is accepted at its first attempt.
\<close>

lemma sqrt_9_16: "sqrt (9 / 16) = 3 / 4"
  using real_sqrt_abs[of "3 / 4"] by (simp add: power2_eq_square)

lemma run_far:
  "OrnamentTree_useMemo
      \<lparr> colors = (), counts = \<lparr> foliage = 2, ornaments = 50, lights = 200 \<rparr>,
        tree = \<lparr> height = 28, radius = 12 \<rparr>, photos_body = [] \<rparr>
      (\<lambda>n. if n = 2 \<or> n = 6 then 1 / 8 else if n = 4 then 1 / 2 else 0) 0 =
   Some \<lparr> placedPositions = [(9, - 14, 0), (9 / 2, 0, 0)], targets = [9, - 14, 0, 9 / 2, 0, 0],
          accepted = [True, True], tries = [1, 1], cursor = 8 \<rparr>"
  by (simp add: OrnamentTree_useMemo_def placeLoop.simps placeRound_def attemptLoop.simps
        getTreePosition_def Let_def MIN_DISTANCE_def sqrt_9_16)
     (simp add: eval_nat_numeral)




subsection \<open>The claims on placement\<close>



text \<open>
  C4.  In the placement result (the tree height being nonzero, as in the configuration,
  so that the division in \<^verbatim>\<open>getTreePosition\<close> is the real one), a point that was
  accepted by the distance check is at Euclidean distance at least \<open>MIN_DISTANCE = 2\<close> from
  every point placed before it.
\<close>

theorem C4_accepted_min_distance:
  assumes "height (tree config) \<noteq> 0"
      and "OrnamentTree_useMemo config rnd c0 = Some st"
      and "j < length (placedPositions st)"
      and "accepted st ! j"
      and "i < j"
  shows "MIN_DISTANCE = 2.0
     \<and> MIN_DISTANCE \<le> distanceTo (placedPositions st ! i) (placedPositions st ! j)"
proof -
  from useMemo_inv[of config rnd c0] assms(2)
  have inv: "placementInv (foliage (counts config)) (foliage (counts config)) st"
    by auto
  then have "length (placedPositions st) = foliage (counts config)"
    and far: "\<And>j k. j < foliage (counts config) \<Longrightarrow> accepted st ! j \<Longrightarrow> k < j \<Longrightarrow>
        MIN_DISTANCE \<le> distanceTo (placedPositions st ! k) (placedPositions st ! j)"
    by (simp_all add: placementInv_def)
  with assms(3) have "j < foliage (counts config)" by simp
  from far[OF this assms(4,5)] show ?thesis
    by (simp add: MIN_DISTANCE_def)
qed

theorem C4_accepted_min_distance_witness:
  "OrnamentTree_useMemo
      \<lparr> colors = (), counts = \<lparr> foliage = 2, ornaments = 50, lights = 200 \<rparr>,
        tree = \<lparr> height = 28, radius = 12 \<rparr>, photos_body = [] \<rparr>
      (\<lambda>n. if n = 2 \<or> n = 6 then 1 / 8 else if n = 4 then 1 / 2 else 0) 0 =
     Some \<lparr> placedPositions = [(9, - 14, 0), (9 / 2, 0, 0)], targets = [9, - 14, 0, 9 / 2, 0, 0],
            accepted = [True, True], tries = [1, 1], cursor = 8 \<rparr>
   \<and> MIN_DISTANCE \<le> distanceTo (9, - 14, 0) (9 / 2, 0, 0)"
proof -
  have "MIN_DISTANCE \<le>
      distanceTo
        (placedPositions \<lparr> placedPositions = [(9, - 14, 0), (9 / 2, 0, 0)],
            targets = [9, - 14, 0, 9 / 2, 0, 0], accepted = [True, True], tries = [1, 1],
            cursor = 8 \<rparr> ! 0)
        (placedPositions \<lparr> placedPositions = [(9, - 14, 0), (9 / 2, 0, 0)],
            targets = [9, - 14, 0, 9 / 2, 0, 0], accepted = [True, True], tries = [1, 1],
            cursor = 8 \<rparr> ! 1)"
    by (rule C4_accepted_min_distance [THEN conjunct2, OF _ run_far]) simp_all
  then have "MIN_DISTANCE \<le> distanceTo (9, - 14, 0) (9 / 2, 0, 0)"
    by simp
  with run_far show ?thesis by (intro conjI)
qed

end
